theory Spec2Isabelle
  imports Complex_Main "HOL-Library.Sublist"
begin

section \<open>Arrays\<close>

text \<open>
  The notebooks compute with NumPy (and CuPy) arrays. An array carries its shape next to
  its entries, so that an array with no rows still has a column count, as
  \<^verbatim>\<open>np.zeros((0, 3))\<close> has. Entries are real numbers: arithmetic is exact, rounding is
  not part of this development. A one-dimensional array is a list, its shape is its length.
\<close>

datatype error = ValueError | AssertionError

record 'a array2 =
  nrows :: nat
  ncols :: nat
  rows :: "'a list list"

record 'a array3 =
  dim0 :: nat
  dim1 :: nat
  dim2 :: nat
  planes :: "'a list list list"

definition wf2 :: "'a array2 \<Rightarrow> bool" where
  "wf2 a \<longleftrightarrow> length (rows a) = nrows a \<and> list_all (\<lambda>r. length r = ncols a) (rows a)"

definition at2 :: "'a array2 \<Rightarrow> nat \<Rightarrow> nat \<Rightarrow> 'a" where
  "at2 a i j = rows a ! i ! j"

definition at3 :: "'a array3 \<Rightarrow> nat \<Rightarrow> nat \<Rightarrow> nat \<Rightarrow> 'a" where
  "at3 a i j k = planes a ! i ! j ! k"

definition tabulate2 :: "nat \<Rightarrow> nat \<Rightarrow> (nat \<Rightarrow> nat \<Rightarrow> 'a) \<Rightarrow> 'a array2" where
  "tabulate2 r c f = \<lparr>nrows = r, ncols = c, rows = map (\<lambda>i. map (\<lambda>j. f i j) [0..<c]) [0..<r]\<rparr>"

definition tabulate3 :: "nat \<Rightarrow> nat \<Rightarrow> nat \<Rightarrow> (nat \<Rightarrow> nat \<Rightarrow> nat \<Rightarrow> 'a) \<Rightarrow> 'a array3" where
  "tabulate3 p r c f =
     \<lparr>dim0 = p, dim1 = r, dim2 = c,
      planes = map (\<lambda>i. map (\<lambda>j. map (\<lambda>k. f i j k) [0..<c]) [0..<r]) [0..<p]\<rparr>"

subsection \<open>Broadcasting\<close>

text \<open>
  NumPy's broadcasting rule for one axis: two extents are compatible when they are equal or
  one of them is 1; the result has the larger extent, and an operand of extent 1 is read
  at index 0 whatever the index of the result is. Incompatible extents raise ValueError.
\<close>

definition broadcast_dim :: "nat \<Rightarrow> nat \<Rightarrow> error + nat" where
  "broadcast_dim m n =
     (if m = n then Inr m else if m = 1 then Inr n else if n = 1 then Inr m
      else Inl ValueError)"

definition bidx :: "nat \<Rightarrow> nat \<Rightarrow> nat" where
  "bidx d i = (if d = 1 then 0 else i)"

definition broadcast2 :: "('a \<Rightarrow> 'a \<Rightarrow> 'a) \<Rightarrow> 'a array2 \<Rightarrow> 'a array2 \<Rightarrow> error + 'a array2" where
  "broadcast2 f a b =
     (case broadcast_dim (nrows a) (nrows b) of Inl e \<Rightarrow> Inl e | Inr r \<Rightarrow>
      (case broadcast_dim (ncols a) (ncols b) of Inl e \<Rightarrow> Inl e | Inr c \<Rightarrow>
        Inr (tabulate2 r c (\<lambda>i j.
          f (at2 a (bidx (nrows a) i) (bidx (ncols a) j))
            (at2 b (bidx (nrows b) i) (bidx (ncols b) j))))))"

definition broadcast3 :: "('a \<Rightarrow> 'a \<Rightarrow> 'a) \<Rightarrow> 'a array3 \<Rightarrow> 'a array3 \<Rightarrow> error + 'a array3" where
  "broadcast3 f a b =
     (case broadcast_dim (dim0 a) (dim0 b) of Inl e \<Rightarrow> Inl e | Inr p \<Rightarrow>
      (case broadcast_dim (dim1 a) (dim1 b) of Inl e \<Rightarrow> Inl e | Inr r \<Rightarrow>
       (case broadcast_dim (dim2 a) (dim2 b) of Inl e \<Rightarrow> Inl e | Inr c \<Rightarrow>
         Inr (tabulate3 p r c (\<lambda>i j k.
           f (at3 a (bidx (dim0 a) i) (bidx (dim1 a) j) (bidx (dim2 a) k))
             (at3 b (bidx (dim0 b) i) (bidx (dim1 b) j) (bidx (dim2 b) k)))))))"

subsection \<open>The NumPy operations the notebooks call\<close>

text \<open>\<^verbatim>\<open>v[:, np.newaxis]\<close> and \<^verbatim>\<open>v[np.newaxis, :]\<close> of a one-dimensional array.\<close>

definition col_newaxis :: "'a list \<Rightarrow> 'a array2" where
  "col_newaxis v = \<lparr>nrows = length v, ncols = 1, rows = map (\<lambda>a. [a]) v\<rparr>"

definition row_newaxis :: "'a list \<Rightarrow> 'a array2" where
  "row_newaxis v = \<lparr>nrows = 1, ncols = length v, rows = [v]\<rparr>"

text \<open>\<^verbatim>\<open>x[:, np.newaxis, :]\<close> and \<^verbatim>\<open>y[np.newaxis, :, :]\<close> of a two-dimensional array.\<close>

definition mid_newaxis :: "'a array2 \<Rightarrow> 'a array3" where
  "mid_newaxis x = \<lparr>dim0 = nrows x, dim1 = 1, dim2 = ncols x, planes = map (\<lambda>r. [r]) (rows x)\<rparr>"

definition front_newaxis :: "'a array2 \<Rightarrow> 'a array3" where
  "front_newaxis y = \<lparr>dim0 = 1, dim1 = nrows y, dim2 = ncols y, planes = [rows y]\<rparr>"

text \<open>\<^verbatim>\<open>y.T\<close>\<close>

definition transpose_T :: "'a array2 \<Rightarrow> 'a array2" where
  "transpose_T a = tabulate2 (ncols a) (nrows a) (\<lambda>i j. at2 a j i)"

text \<open>
  \<^verbatim>\<open>np.einsum('ij,ij->i', a, b)\<close>: entry \<open>i\<close> of the result is the sum over \<open>j\<close> of
  \<open>a[i,j] * b[i,j]\<close>.
\<close>

definition einsum_ij_ij_i :: "real array2 \<Rightarrow> real array2 \<Rightarrow> error + real list" where
  "einsum_ij_ij_i a b =
     (case broadcast_dim (nrows a) (nrows b) of Inl e \<Rightarrow> Inl e | Inr r \<Rightarrow>
      (case broadcast_dim (ncols a) (ncols b) of Inl e \<Rightarrow> Inl e | Inr c \<Rightarrow>
        Inr (map (\<lambda>i. sum_list (map (\<lambda>j.
               at2 a (bidx (nrows a) i) (bidx (ncols a) j)
             * at2 b (bidx (nrows b) i) (bidx (ncols b) j)) [0..<c])) [0..<r])))"

text \<open>
  \<^verbatim>\<open>np.dot(a, b)\<close> of two-dimensional arrays is the matrix product; the inner extents must
  be equal (no broadcasting), otherwise ValueError ("shapes not aligned").
\<close>

definition dot :: "real array2 \<Rightarrow> real array2 \<Rightarrow> error + real array2" where
  "dot a b =
     (if ncols a \<noteq> nrows b then Inl ValueError
      else Inr (tabulate2 (nrows a) (ncols b) (\<lambda>i j.
             sum_list (map (\<lambda>k. at2 a i k * at2 b k j) [0..<ncols a]))))"

text \<open>\<^verbatim>\<open>c * a\<close> for a scalar \<open>c\<close>, and \<^verbatim>\<open>np.abs(a)\<close>.\<close>

definition scalar_mul :: "real \<Rightarrow> real array2 \<Rightarrow> real array2" where
  "scalar_mul c a = a\<lparr>rows := map (map (\<lambda>v. c * v)) (rows a)\<rparr>"

definition np_abs :: "real array2 \<Rightarrow> real array2" where
  "np_abs a = a\<lparr>rows := map (map abs) (rows a)\<rparr>"

text \<open>\<^verbatim>\<open>a.sum(axis=1)\<close> of a two-dimensional and \<^verbatim>\<open>a.sum(axis=2)\<close> of a three-dimensional array.\<close>

definition sum_axis1 :: "real array2 \<Rightarrow> real list" where
  "sum_axis1 a = map sum_list (rows a)"

definition sum_axis2 :: "'a::monoid_add array3 \<Rightarrow> 'a array2" where
  "sum_axis2 a = \<lparr>nrows = dim0 a, ncols = dim1 a, rows = map (map sum_list) (planes a)\<rparr>"

section \<open>The Euclidean distance matrix\<close>

text \<open>
  \<^verbatim>\<open>
  def euclidean_broadcast(x, y):
      diff = x[:, np.newaxis, :] - y[np.newaxis, :, :]
      return (diff * diff).sum(axis=2)
  \<close>
\<close>

definition euclidean_broadcast :: "real array2 \<Rightarrow> real array2 \<Rightarrow> error + real array2" where
  "euclidean_broadcast x y =
     (case broadcast3 (-) (mid_newaxis x) (front_newaxis y) of Inl e \<Rightarrow> Inl e | Inr diff \<Rightarrow>
      (case broadcast3 (*) diff diff of Inl e \<Rightarrow> Inl e | Inr sq \<Rightarrow>
        Inr (sum_axis2 sq)))"

text \<open>
  \<^verbatim>\<open>
  def euclidean_trick(x, y):
      x2 = np.einsum('ij,ij->i', x, x)[:, np.newaxis]
      y2 = np.einsum('ij,ij->i', y, y)[np.newaxis, :]
      xy = np.dot(x, y.T)
      return np.abs(x2 + y2 - 2. * xy)
  \<close>
\<close>

definition euclidean_trick :: "real array2 \<Rightarrow> real array2 \<Rightarrow> error + real array2" where
  "euclidean_trick x y =
     (case einsum_ij_ij_i x x of Inl e \<Rightarrow> Inl e | Inr ex \<Rightarrow>
      (let x2 = col_newaxis ex in
       case einsum_ij_ij_i y y of Inl e \<Rightarrow> Inl e | Inr ey \<Rightarrow>
       (let y2 = row_newaxis ey in
        case dot x (transpose_T y) of Inl e \<Rightarrow> Inl e | Inr xy \<Rightarrow>
        (case broadcast2 (+) x2 y2 of Inl e \<Rightarrow> Inl e | Inr s \<Rightarrow>
         (case broadcast2 (-) s (scalar_mul 2 xy) of Inl e \<Rightarrow> Inl e | Inr d \<Rightarrow>
           Inr (np_abs d))))))"

text \<open>
  \<^verbatim>\<open>
  def euclidean_np(x, y):
      x2 = (x * x).sum(axis=1)[:, np.newaxis]
      y2 = (y * y).sum(axis=1)[np.newaxis, :]
      xy = np.dot(x, y.T)
      return np.abs(x2 + y2 - 2. * xy)
  \<close>
\<close>

definition euclidean_np :: "real array2 \<Rightarrow> real array2 \<Rightarrow> error + real array2" where
  "euclidean_np x y =
     (case broadcast2 (*) x x of Inl e \<Rightarrow> Inl e | Inr xx \<Rightarrow>
      (let x2 = col_newaxis (sum_axis1 xx) in
       case broadcast2 (*) y y of Inl e \<Rightarrow> Inl e | Inr yy \<Rightarrow>
       (let y2 = row_newaxis (sum_axis1 yy) in
        case dot x (transpose_T y) of Inl e \<Rightarrow> Inl e | Inr xy \<Rightarrow>
        (case broadcast2 (+) x2 y2 of Inl e \<Rightarrow> Inl e | Inr s \<Rightarrow>
         (case broadcast2 (-) s (scalar_mul 2 xy) of Inl e \<Rightarrow> Inl e | Inr d \<Rightarrow>
           Inr (np_abs d))))))"

section \<open>CPU and GPU arrays\<close>

text \<open>
  The CuPy notebook computes with NumPy arrays (on the CPU) and CuPy arrays (on the GPU).
  \<^verbatim>\<open>cp.get_array_module(x)\<close> is the module \<open>x\<close> belongs to. CuPy's operations are taken
  to compute what NumPy's compute.
\<close>

datatype array_module = numpy | cupy

datatype ndarray = NumPyArray "real array2" | CuPyArray "real array2"

fun get_array_module :: "ndarray \<Rightarrow> array_module" where
  "get_array_module (NumPyArray a) = numpy"
| "get_array_module (CuPyArray a) = cupy"

fun entries :: "ndarray \<Rightarrow> real array2" where
  "entries (NumPyArray a) = a"
| "entries (CuPyArray a) = a"

fun array_of :: "array_module \<Rightarrow> real array2 \<Rightarrow> ndarray" where
  "array_of numpy a = NumPyArray a"
| "array_of cupy a = CuPyArray a"

text \<open>
  \<^verbatim>\<open>
  def euclidean_cp(x, y):
      x2 = (x * x).sum(axis=1)[:, cp.newaxis]
      y2 = (y * y).sum(axis=1)[cp.newaxis, :]
      xy = cp.dot(x, y.T)
      return cp.abs(x2 + y2 - 2. * xy)
  \<close>
\<close>

definition euclidean_cp :: "real array2 \<Rightarrow> real array2 \<Rightarrow> error + real array2" where
  "euclidean_cp x y =
     (case broadcast2 (*) x x of Inl e \<Rightarrow> Inl e | Inr xx \<Rightarrow>
      (let x2 = col_newaxis (sum_axis1 xx) in
       case broadcast2 (*) y y of Inl e \<Rightarrow> Inl e | Inr yy \<Rightarrow>
       (let y2 = row_newaxis (sum_axis1 yy) in
        case dot x (transpose_T y) of Inl e \<Rightarrow> Inl e | Inr xy \<Rightarrow>
        (case broadcast2 (+) x2 y2 of Inl e \<Rightarrow> Inl e | Inr s \<Rightarrow>
         (case broadcast2 (-) s (scalar_mul 2 xy) of Inl e \<Rightarrow> Inl e | Inr d \<Rightarrow>
           Inr (np_abs d))))))"

text \<open>
  \<^verbatim>\<open>
  def euclidean(x, y):
      xp = cp.get_array_module(x)
      # verify that x and y are of arrays of the same kind
      assert xp == cp.get_array_module(y)
      x2 = (x * x).sum(axis=1)[:, xp.newaxis]
      y2 = (y * y).sum(axis=1)[xp.newaxis, :]
      xy = xp.dot(x, y.T)
      return xp.abs(x2 + y2 - 2. * xy)
  \<close>
\<close>

definition euclidean :: "ndarray \<Rightarrow> ndarray \<Rightarrow> error + ndarray" where
  "euclidean x y =
     (let xp = get_array_module x in
      if xp \<noteq> get_array_module y then Inl AssertionError
      else
       (case broadcast2 (*) (entries x) (entries x) of Inl e \<Rightarrow> Inl e | Inr xx \<Rightarrow>
        (let x2 = col_newaxis (sum_axis1 xx) in
         case broadcast2 (*) (entries y) (entries y) of Inl e \<Rightarrow> Inl e | Inr yy \<Rightarrow>
         (let y2 = row_newaxis (sum_axis1 yy) in
          case dot (entries x) (transpose_T (entries y)) of Inl e \<Rightarrow> Inl e | Inr xy \<Rightarrow>
          (case broadcast2 (+) x2 y2 of Inl e \<Rightarrow> Inl e | Inr s \<Rightarrow>
           (case broadcast2 (-) s (scalar_mul 2 xy) of Inl e \<Rightarrow> Inl e | Inr d \<Rightarrow>
             Inr (array_of xp (np_abs d))))))))"

section \<open>Arrays as objects of a store\<close>

text \<open>
  Python passes arrays by reference. To speak about what a call does to the arrays that
  exist, the two functions are written a second time over a store of array objects, where
  a reference is an index into the store. Each operation the functions call reads its
  operands from the store and allocates its result; none of them writes into an array
  that exists (there is no \<^verbatim>\<open>out=\<close> argument, no augmented assignment and no
  assignment to an index in the source), so a view such as \<^verbatim>\<open>y.T\<close> is a new object
  too. An exception leaves the store as it is and ends the call.
\<close>

type_synonym ref = nat

record store =
  vectors :: "real list list"
  matrices :: "real array2 list"
  cubes :: "real array3 list"

type_synonym 'a action = "store \<Rightarrow> (error + 'a) \<times> store"

definition new_vector :: "real list \<Rightarrow> ref action" where
  "new_vector v s = (Inr (length (vectors s)), s\<lparr>vectors := vectors s @ [v]\<rparr>)"

definition new_matrix :: "real array2 \<Rightarrow> ref action" where
  "new_matrix a s = (Inr (length (matrices s)), s\<lparr>matrices := matrices s @ [a]\<rparr>)"

definition new_cube :: "real array3 \<Rightarrow> ref action" where
  "new_cube a s = (Inr (length (cubes s)), s\<lparr>cubes := cubes s @ [a]\<rparr>)"

definition raise :: "error \<Rightarrow> 'a action" where
  "raise e s = (Inl e, s)"

definition bind_action :: "'a action \<Rightarrow> ('a \<Rightarrow> 'b action) \<Rightarrow> 'b action" where
  "bind_action m f s = (case m s of (Inl e, s') \<Rightarrow> (Inl e, s') | (Inr v, s') \<Rightarrow> f v s')"

definition st_einsum_ij_ij_i :: "ref \<Rightarrow> ref \<Rightarrow> ref action" where
  "st_einsum_ij_ij_i a b s =
     (case einsum_ij_ij_i (matrices s ! a) (matrices s ! b) of
        Inl e \<Rightarrow> raise e s | Inr v \<Rightarrow> new_vector v s)"

definition st_col_newaxis :: "ref \<Rightarrow> ref action" where
  "st_col_newaxis v s = new_matrix (col_newaxis (vectors s ! v)) s"

definition st_row_newaxis :: "ref \<Rightarrow> ref action" where
  "st_row_newaxis v s = new_matrix (row_newaxis (vectors s ! v)) s"

definition st_transpose_T :: "ref \<Rightarrow> ref action" where
  "st_transpose_T a s = new_matrix (transpose_T (matrices s ! a)) s"

definition st_dot :: "ref \<Rightarrow> ref \<Rightarrow> ref action" where
  "st_dot a b s =
     (case dot (matrices s ! a) (matrices s ! b) of
        Inl e \<Rightarrow> raise e s | Inr c \<Rightarrow> new_matrix c s)"

definition st_broadcast2 :: "(real \<Rightarrow> real \<Rightarrow> real) \<Rightarrow> ref \<Rightarrow> ref \<Rightarrow> ref action" where
  "st_broadcast2 f a b s =
     (case broadcast2 f (matrices s ! a) (matrices s ! b) of
        Inl e \<Rightarrow> raise e s | Inr c \<Rightarrow> new_matrix c s)"

definition st_scalar_mul :: "real \<Rightarrow> ref \<Rightarrow> ref action" where
  "st_scalar_mul c a s = new_matrix (scalar_mul c (matrices s ! a)) s"

definition st_np_abs :: "ref \<Rightarrow> ref action" where
  "st_np_abs a s = new_matrix (np_abs (matrices s ! a)) s"

definition st_mid_newaxis :: "ref \<Rightarrow> ref action" where
  "st_mid_newaxis a s = new_cube (mid_newaxis (matrices s ! a)) s"

definition st_front_newaxis :: "ref \<Rightarrow> ref action" where
  "st_front_newaxis a s = new_cube (front_newaxis (matrices s ! a)) s"

definition st_broadcast3 :: "(real \<Rightarrow> real \<Rightarrow> real) \<Rightarrow> ref \<Rightarrow> ref \<Rightarrow> ref action" where
  "st_broadcast3 f a b s =
     (case broadcast3 f (cubes s ! a) (cubes s ! b) of
        Inl e \<Rightarrow> raise e s | Inr c \<Rightarrow> new_cube c s)"

definition st_sum_axis2 :: "ref \<Rightarrow> ref action" where
  "st_sum_axis2 a s = new_matrix (sum_axis2 (cubes s ! a)) s"

definition euclidean_broadcast_st :: "ref \<Rightarrow> ref \<Rightarrow> ref action" where
  "euclidean_broadcast_st x y =
     bind_action (st_mid_newaxis x) (\<lambda>xa.
     bind_action (st_front_newaxis y) (\<lambda>ya.
     bind_action (st_broadcast3 (-) xa ya) (\<lambda>diff.
     bind_action (st_broadcast3 (*) diff diff) (\<lambda>sq.
     st_sum_axis2 sq))))"

definition euclidean_trick_st :: "ref \<Rightarrow> ref \<Rightarrow> ref action" where
  "euclidean_trick_st x y =
     bind_action (st_einsum_ij_ij_i x x) (\<lambda>ex.
     bind_action (st_col_newaxis ex) (\<lambda>x2.
     bind_action (st_einsum_ij_ij_i y y) (\<lambda>ey.
     bind_action (st_row_newaxis ey) (\<lambda>y2.
     bind_action (st_transpose_T y) (\<lambda>yT.
     bind_action (st_dot x yT) (\<lambda>xy.
     bind_action (st_broadcast2 (+) x2 y2) (\<lambda>s.
     bind_action (st_scalar_mul 2 xy) (\<lambda>m.
     bind_action (st_broadcast2 (-) s m) (\<lambda>d.
     st_np_abs d)))))))))"

text \<open>
  The matrix a call returned (or the exception it raised), and the stores that keep every
  object of an earlier store unchanged.
\<close>

definition returned :: "(error + ref) \<times> store \<Rightarrow> error + real array2" where
  "returned out = (case out of (Inl e, s) \<Rightarrow> Inl e | (Inr r, s) \<Rightarrow> Inr (matrices s ! r))"

definition extends :: "store \<Rightarrow> store \<Rightarrow> bool" where
  "extends s s' \<longleftrightarrow>
     prefix (vectors s) (vectors s') \<and> prefix (matrices s) (matrices s')
     \<and> prefix (cubes s) (cubes s')"

section \<open>Vectors of the specification\<close>




text \<open>The batches of the specification's two scenarios.\<close>

definition fixture_square :: "real array2" where
  "fixture_square = \<lparr>nrows = 2, ncols = 2, rows = [[0, 0], [3, 4]]\<rparr>"

definition fixture_left :: "real array2" where
  "fixture_left = \<lparr>nrows = 1, ncols = 3, rows = [[1, 2, 3]]\<rparr>"

definition fixture_right :: "real array2" where
  "fixture_right = \<lparr>nrows = 1, ncols = 3, rows = [[4, 5, 6]]\<rparr>"

text \<open>A store that holds the three batches of the scenarios.\<close>

definition store0 :: store where
  "store0 = \<lparr>vectors = [], matrices = [fixture_left, fixture_right, fixture_square], cubes = []\<rparr>"

section \<open>Properties of the array operations\<close>

lemma nrows_tabulate2 [simp]: "nrows (tabulate2 r c f) = r"
  by (simp add: tabulate2_def)

lemma ncols_tabulate2 [simp]: "ncols (tabulate2 r c f) = c"
  by (simp add: tabulate2_def)

lemma wf2_tabulate2 [simp]: "wf2 (tabulate2 r c f)"
  by (simp add: tabulate2_def wf2_def list_all_iff)

lemma at2_tabulate2 [simp]: "i < r \<Longrightarrow> j < c \<Longrightarrow> at2 (tabulate2 r c f) i j = f i j"
  by (simp add: tabulate2_def at2_def)

lemma tabulate2_cong:
  assumes "\<And>i j. i < r \<Longrightarrow> j < c \<Longrightarrow> f i j = g i j"
  shows "tabulate2 r c f = tabulate2 r c g"
  using assms by (simp add: tabulate2_def)

lemma tabulate2_at2:
  assumes "wf2 a"
  shows "tabulate2 (nrows a) (ncols a) (at2 a) = a"
proof -
  have len: "length (rows a) = nrows a" and row: "\<And>i. i < nrows a \<Longrightarrow> length (rows a ! i) = ncols a"
    using assms by (auto simp: wf2_def list_all_length)
  have "map (\<lambda>i. map (\<lambda>j. rows a ! i ! j) [0..<ncols a]) [0..<nrows a] = rows a"
    by (rule nth_equalityI) (auto simp: len row intro: nth_equalityI)
  then show ?thesis
    by (simp add: tabulate2_def at2_def)
qed

lemma dims_tabulate3 [simp]:
  "dim0 (tabulate3 p r c f) = p" "dim1 (tabulate3 p r c f) = r" "dim2 (tabulate3 p r c f) = c"
  by (simp_all add: tabulate3_def)

lemma at3_tabulate3 [simp]:
  "i < p \<Longrightarrow> j < r \<Longrightarrow> k < c \<Longrightarrow> at3 (tabulate3 p r c f) i j k = f i j k"
  by (simp add: tabulate3_def at3_def)

lemma sum_axis2_tabulate3:
  "sum_axis2 (tabulate3 p r c f) = tabulate2 p r (\<lambda>i j. sum_list (map (\<lambda>k. f i j k) [0..<c]))"
  by (simp add: sum_axis2_def tabulate3_def tabulate2_def comp_def)

lemma bidx_less [simp]: "i < d \<Longrightarrow> bidx d i = i"
  by (auto simp: bidx_def)

lemma broadcast_dim_same [simp]: "broadcast_dim n n = Inr n"
  by (simp add: broadcast_dim_def)

lemma broadcast_dim_one_right [simp]: "broadcast_dim n (Suc 0) = Inr n"
  by (simp add: broadcast_dim_def)

lemma broadcast_dim_one_left [simp]: "broadcast_dim (Suc 0) n = Inr n"
  by (auto simp: broadcast_dim_def)

lemma map_upt_cong:
  assumes "\<And>k. k < n \<Longrightarrow> f k = g k"
  shows "map f [0..<n] = map g [0..<n]"
  using assms by simp

lemma sum_list_upt_cong:
  assumes "\<And>k. k < n \<Longrightarrow> f k = g k"
  shows "sum_list (map f [0..<n]) = sum_list (map g [0..<n])"
  by (rule arg_cong [where f = sum_list]) (simp add: assms)

lemma einsum_self:
  "einsum_ij_ij_i x x =
     Inr (map (\<lambda>i. sum_list (map (\<lambda>k. at2 x i k * at2 x i k) [0..<ncols x])) [0..<nrows x])"
  by (auto simp: einsum_ij_ij_i_def intro!: map_upt_cong sum_list_upt_cong)

lemma at2_transpose_T [simp]:
  "i < ncols a \<Longrightarrow> j < nrows a \<Longrightarrow> at2 (transpose_T a) i j = at2 a j i"
  by (simp add: transpose_T_def)

lemma dims_transpose_T [simp]:
  "nrows (transpose_T a) = ncols a" "ncols (transpose_T a) = nrows a"
  by (simp_all add: transpose_T_def)

lemma dot_transpose_T:
  "dot x (transpose_T y) =
     (if ncols x \<noteq> ncols y then Inl ValueError
      else Inr (tabulate2 (nrows x) (nrows y) (\<lambda>i j.
             sum_list (map (\<lambda>k. at2 x i k * at2 y j k) [0..<ncols x]))))"
  by (auto simp: dot_def intro!: tabulate2_cong sum_list_upt_cong)

lemma scalar_mul_tabulate2:
  "scalar_mul c (tabulate2 r n f) = tabulate2 r n (\<lambda>i j. c * f i j)"
  by (simp add: scalar_mul_def tabulate2_def comp_def)

lemma np_abs_tabulate2:
  "np_abs (tabulate2 r n f) = tabulate2 r n (\<lambda>i j. \<bar>f i j\<bar>)"
  by (simp add: np_abs_def tabulate2_def comp_def)

lemma col_plus_row:
  "broadcast2 f (col_newaxis (map g [0..<r])) (row_newaxis (map h [0..<c])) =
     Inr (tabulate2 r c (\<lambda>i j. f (g i) (h j)))"
proof -
  have "tabulate2 r c (\<lambda>i j. f (at2 (col_newaxis (map g [0..<r])) (bidx r i) (bidx 1 j))
          (at2 (row_newaxis (map h [0..<c])) (bidx 1 i) (bidx c j))) =
        tabulate2 r c (\<lambda>i j. f (g i) (h j))"
    by (rule tabulate2_cong) (auto simp: col_newaxis_def row_newaxis_def at2_def bidx_def)
  then show ?thesis
    by (simp add: broadcast2_def col_newaxis_def row_newaxis_def)
qed

lemma broadcast2_tabulate2:
  "broadcast2 f (tabulate2 r c g) (tabulate2 r c h) = Inr (tabulate2 r c (\<lambda>i j. f (g i j) (h i j)))"
  by (auto simp: broadcast2_def intro!: tabulate2_cong)

lemma euclidean_trick_closed:
  "euclidean_trick x y =
     (if ncols x \<noteq> ncols y then Inl ValueError
      else Inr (tabulate2 (nrows x) (nrows y) (\<lambda>i j.
        \<bar>sum_list (map (\<lambda>k. at2 x i k * at2 x i k) [0..<ncols x])
         + sum_list (map (\<lambda>k. at2 y j k * at2 y j k) [0..<ncols y])
         - 2 * sum_list (map (\<lambda>k. at2 x i k * at2 y j k) [0..<ncols x])\<bar>)))"
  by (simp add: euclidean_trick_def einsum_self dot_transpose_T col_plus_row
      scalar_mul_tabulate2 broadcast2_tabulate2 np_abs_tabulate2)





lemma at3_mid_newaxis:
  "i < length (rows x) \<Longrightarrow> at3 (mid_newaxis x) i 0 k = at2 x i k"
  by (simp add: mid_newaxis_def at3_def at2_def)

lemma at3_front_newaxis:
  "at3 (front_newaxis y) 0 j k = at2 y j k"
  by (simp add: front_newaxis_def at3_def at2_def)

lemma dims_mid_newaxis [simp]:
  "dim0 (mid_newaxis x) = nrows x" "dim1 (mid_newaxis x) = 1" "dim2 (mid_newaxis x) = ncols x"
  by (simp_all add: mid_newaxis_def)

lemma dims_front_newaxis [simp]:
  "dim0 (front_newaxis y) = 1" "dim1 (front_newaxis y) = nrows y" "dim2 (front_newaxis y) = ncols y"
  by (simp_all add: front_newaxis_def)

lemma tabulate3_cong:
  assumes "\<And>i j k. i < p \<Longrightarrow> j < r \<Longrightarrow> k < c \<Longrightarrow> f i j k = g i j k"
  shows "tabulate3 p r c f = tabulate3 p r c g"
  using assms by (simp add: tabulate3_def)

lemma bidx_one [simp]: "bidx (Suc 0) i = 0"
  by (simp add: bidx_def)

lemma broadcast_difference:
  assumes "length (rows x) = nrows x"
  shows "broadcast3 (-) (mid_newaxis x) (front_newaxis y) =
     (case broadcast_dim (ncols x) (ncols y) of Inl e \<Rightarrow> Inl e | Inr c \<Rightarrow>
        Inr (tabulate3 (nrows x) (nrows y) c (\<lambda>i j k.
          at2 x i (bidx (ncols x) k) - at2 y j (bidx (ncols y) k))))"
proof (cases "broadcast_dim (ncols x) (ncols y)")
  case (Inl e)
  then show ?thesis by (simp add: broadcast3_def)
next
  case (Inr c)
  have "tabulate3 (nrows x) (nrows y) c (\<lambda>i j k.
          at3 (mid_newaxis x) (bidx (nrows x) i) (bidx (Suc 0) j) (bidx (ncols x) k)
        - at3 (front_newaxis y) (bidx (Suc 0) i) (bidx (nrows y) j) (bidx (ncols y) k)) =
        tabulate3 (nrows x) (nrows y) c (\<lambda>i j k.
          at2 x i (bidx (ncols x) k) - at2 y j (bidx (ncols y) k))"
    by (rule tabulate3_cong) (simp add: at3_mid_newaxis at3_front_newaxis assms)
  then show ?thesis using Inr by (simp add: broadcast3_def)
qed

lemma square_tabulate3:
  "broadcast3 (*) (tabulate3 p r c f) (tabulate3 p r c f) =
     Inr (tabulate3 p r c (\<lambda>i j k. f i j k * f i j k))"
proof -
  have "tabulate3 p r c (\<lambda>i j k.
           at3 (tabulate3 p r c f) (bidx p i) (bidx r j) (bidx c k)
         * at3 (tabulate3 p r c f) (bidx p i) (bidx r j) (bidx c k)) =
        tabulate3 p r c (\<lambda>i j k. f i j k * f i j k)"
    by (rule tabulate3_cong) simp
  then show ?thesis by (simp add: broadcast3_def)
qed

lemma euclidean_broadcast_closed:
  assumes "length (rows x) = nrows x"
  shows "euclidean_broadcast x y =
     (case broadcast_dim (ncols x) (ncols y) of Inl e \<Rightarrow> Inl e | Inr c \<Rightarrow>
        Inr (tabulate2 (nrows x) (nrows y) (\<lambda>i j. sum_list (map (\<lambda>k.
          (at2 x i (bidx (ncols x) k) - at2 y j (bidx (ncols y) k))
        * (at2 x i (bidx (ncols x) k) - at2 y j (bidx (ncols y) k))) [0..<c]))))"
  by (cases "broadcast_dim (ncols x) (ncols y)")
    (simp_all add: euclidean_broadcast_def broadcast_difference [OF assms] square_tabulate3
      sum_axis2_tabulate3)

lemma euclidean_broadcast_same_width:
  assumes "length (rows x) = nrows x" "ncols x = ncols y"
  shows "euclidean_broadcast x y =
        Inr (tabulate2 (nrows x) (nrows y) (\<lambda>i j. sum_list (map (\<lambda>k.
          (at2 x i k - at2 y j k) * (at2 x i k - at2 y j k)) [0..<ncols x])))"
proof -
  have "tabulate2 (nrows x) (nrows y) (\<lambda>i j. sum_list (map (\<lambda>k.
          (at2 x i (bidx (ncols y) k) - at2 y j (bidx (ncols y) k))
        * (at2 x i (bidx (ncols y) k) - at2 y j (bidx (ncols y) k))) [0..<ncols y])) =
        tabulate2 (nrows x) (nrows y) (\<lambda>i j. sum_list (map (\<lambda>k.
          (at2 x i k - at2 y j k) * (at2 x i k - at2 y j k)) [0..<ncols y]))"
    by (intro tabulate2_cong sum_list_upt_cong) simp
  then show ?thesis
    by (simp add: euclidean_broadcast_closed [OF assms(1)] assms(2))
qed

lemma expand_square_sum:
  fixes a b :: "nat \<Rightarrow> real"
  shows "sum_list (map (\<lambda>k. (a k - b k) * (a k - b k)) [0..<n]) =
         sum_list (map (\<lambda>k. a k * a k) [0..<n]) + sum_list (map (\<lambda>k. b k * b k) [0..<n])
         - 2 * sum_list (map (\<lambda>k. a k * b k) [0..<n])"
  by (induction n) (simp_all add: algebra_simps)

lemma square_sum_nonneg:
  fixes a :: "nat \<Rightarrow> real"
  shows "0 \<le> sum_list (map (\<lambda>k. a k * a k) [0..<n])"
  by (rule sum_list_nonneg) auto


lemma wf2_length: "wf2 a \<Longrightarrow> length (rows a) = nrows a"
  by (simp add: wf2_def)






subsection \<open>The two strategies\<close>


lemma wf2_fixture_left: "wf2 fixture_left"
  by (simp add: fixture_left_def wf2_def)

lemma wf2_fixture_right: "wf2 fixture_right"
  by (simp add: fixture_right_def wf2_def)

lemma abs_expansion:
  fixes a b :: "nat \<Rightarrow> real"
  shows "\<bar>sum_list (map (\<lambda>k. a k * a k) [0..<n]) + sum_list (map (\<lambda>k. b k * b k) [0..<n])
         - 2 * sum_list (map (\<lambda>k. a k * b k) [0..<n])\<bar> =
         sum_list (map (\<lambda>k. (a k - b k) * (a k - b k)) [0..<n])"
  using square_sum_nonneg [of "\<lambda>k. a k - b k" n] by (simp add: expand_square_sum)


subsection \<open>The functions over the store compute what the functions over values do\<close>

lemmas st_defs = bind_action_def st_einsum_ij_ij_i_def st_col_newaxis_def st_row_newaxis_def
  st_transpose_T_def st_dot_def st_broadcast2_def st_scalar_mul_def st_np_abs_def
  st_mid_newaxis_def st_front_newaxis_def st_broadcast3_def st_sum_axis2_def
  new_matrix_def new_vector_def new_cube_def raise_def

lemma trick_run:
  assumes "x < length (matrices s)" "y < length (matrices s)"
  shows "extends s (snd (euclidean_trick_st x y s)) \<and>
         returned (euclidean_trick_st x y s) = euclidean_trick (matrices s ! x) (matrices s ! y)"
  using assms
  by (auto simp: euclidean_trick_st_def euclidean_trick_def st_defs returned_def extends_def
      nth_append Let_def split: sum.splits)

lemma broadcast_run:
  assumes "x < length (matrices s)" "y < length (matrices s)"
  shows "extends s (snd (euclidean_broadcast_st x y s)) \<and>
         returned (euclidean_broadcast_st x y s) =
           euclidean_broadcast (matrices s ! x) (matrices s ! y)"
  using assms
  by (auto simp: euclidean_broadcast_st_def euclidean_broadcast_def st_defs returned_def
      extends_def nth_append Let_def split: sum.splits)

section \<open>The claims of the specification\<close>



text \<open>
  Claim C2. On batches with the same number of feature columns the direct-difference
  strategy \<open>euclidean_broadcast\<close> and the algebraic-expansion strategy
  \<open>euclidean_trick\<close> return the same matrix (in exact arithmetic), and neither raises.
\<close>
theorem strategies_agree:
  assumes "wf2 x" "wf2 y" "ncols x = ncols y"
  shows "euclidean_broadcast x y = euclidean_trick x y \<and> (\<exists>r. euclidean_trick x y = Inr r)"
proof -
  have "tabulate2 (nrows x) (nrows y) (\<lambda>i j. sum_list (map (\<lambda>k.
          (at2 x i k - at2 y j k) * (at2 x i k - at2 y j k)) [0..<ncols x])) =
        tabulate2 (nrows x) (nrows y) (\<lambda>i j.
        \<bar>sum_list (map (\<lambda>k. at2 x i k * at2 x i k) [0..<ncols x])
         + sum_list (map (\<lambda>k. at2 y j k * at2 y j k) [0..<ncols x])
         - 2 * sum_list (map (\<lambda>k. at2 x i k * at2 y j k) [0..<ncols x])\<bar>)"
    by (simp only: abs_expansion)
  then show ?thesis
    using assms by (simp add: euclidean_broadcast_same_width wf2_length euclidean_trick_closed)
qed

theorem strategies_agree_witness:
  "wf2 fixture_left \<and> wf2 fixture_right \<and> ncols fixture_left = ncols fixture_right
   \<and> euclidean_broadcast fixture_left fixture_right = euclidean_trick fixture_left fixture_right
   \<and> (\<exists>r. euclidean_trick fixture_left fixture_right = Inr r)"
proof -
  have c: "ncols fixture_left = ncols fixture_right"
    by (simp add: fixture_left_def fixture_right_def)
  show ?thesis
    using strategies_agree [OF wf2_fixture_left wf2_fixture_right c]
      wf2_fixture_left wf2_fixture_right c by simp
qed

text \<open>
  Claim C3 says that batches with different feature-column counts always make the
  computation fail. \<open>euclidean_broadcast\<close> does not: a batch with a single feature column
  is broadcast against the columns of the other one, here a 1-by-1 batch against a 1-by-2
  batch, and a matrix is returned.
\<close>
theorem broadcast_mismatch_counterexample:
  "wf2 \<lparr>nrows = 1, ncols = 1, rows = [[1::real]]\<rparr> \<and> wf2 \<lparr>nrows = 1, ncols = 2, rows = [[1::real, 2]]\<rparr>
   \<and> ncols \<lparr>nrows = 1, ncols = 1, rows = [[1::real]]\<rparr> \<noteq> ncols \<lparr>nrows = 1, ncols = 2, rows = [[1::real, 2]]\<rparr>
   \<and> euclidean_broadcast \<lparr>nrows = 1, ncols = 1, rows = [[1::real]]\<rparr>
         \<lparr>nrows = 1, ncols = 2, rows = [[1::real, 2]]\<rparr>
       = Inr \<lparr>nrows = 1, ncols = 1, rows = [[1::real]]\<rparr>"
  by code_simp

text \<open>
  Claim C3, amended. When the feature-column counts differ, \<open>euclidean_trick\<close> fails
  with ValueError (raised by the matrix product) and returns nothing.
  \<open>euclidean_broadcast\<close> fails with ValueError when neither count is 1; when one batch has
  a single feature column, that column is subtracted from every column of the other batch
  and an N-by-N2 matrix of the sums of the squared differences is returned.
\<close>
theorem shape_mismatch:
  assumes "wf2 x" "wf2 y" "ncols x \<noteq> ncols y"
  shows "euclidean_trick x y = Inl ValueError \<and>
         euclidean_broadcast x y =
           (if ncols x = 1 then
              Inr (tabulate2 (nrows x) (nrows y) (\<lambda>i j.
                sum_list (map (\<lambda>k. (at2 x i 0 - at2 y j k) * (at2 x i 0 - at2 y j k))
                  [0..<ncols y])))
            else if ncols y = 1 then
              Inr (tabulate2 (nrows x) (nrows y) (\<lambda>i j.
                sum_list (map (\<lambda>k. (at2 x i k - at2 y j 0) * (at2 x i k - at2 y j 0))
                  [0..<ncols x])))
            else Inl ValueError)"
proof -
  have len: "length (rows x) = nrows x"
    using assms(1) by (rule wf2_length)
  have trick: "euclidean_trick x y = Inl ValueError"
    using assms(3) by (simp add: euclidean_trick_closed)
  have bc: "euclidean_broadcast x y =
           (if ncols x = 1 then
              Inr (tabulate2 (nrows x) (nrows y) (\<lambda>i j.
                sum_list (map (\<lambda>k. (at2 x i 0 - at2 y j k) * (at2 x i 0 - at2 y j k))
                  [0..<ncols y])))
            else if ncols y = 1 then
              Inr (tabulate2 (nrows x) (nrows y) (\<lambda>i j.
                sum_list (map (\<lambda>k. (at2 x i k - at2 y j 0) * (at2 x i k - at2 y j 0))
                  [0..<ncols x])))
            else Inl ValueError)"
  proof (cases "ncols x = 1")
    case True
    have "tabulate2 (nrows x) (nrows y) (\<lambda>i j. sum_list (map (\<lambda>k.
          (at2 x i (bidx (Suc 0) k) - at2 y j (bidx (ncols y) k))
        * (at2 x i (bidx (Suc 0) k) - at2 y j (bidx (ncols y) k))) [0..<ncols y])) =
        tabulate2 (nrows x) (nrows y) (\<lambda>i j.
                sum_list (map (\<lambda>k. (at2 x i 0 - at2 y j k) * (at2 x i 0 - at2 y j k))
                  [0..<ncols y]))"
      by (intro tabulate2_cong sum_list_upt_cong) simp
    then show ?thesis
      using True by (simp add: euclidean_broadcast_closed [OF len])
  next
    case False
    show ?thesis
    proof (cases "ncols y = 1")
      case True
      have "tabulate2 (nrows x) (nrows y) (\<lambda>i j. sum_list (map (\<lambda>k.
          (at2 x i (bidx (ncols x) k) - at2 y j (bidx (Suc 0) k))
        * (at2 x i (bidx (ncols x) k) - at2 y j (bidx (Suc 0) k))) [0..<ncols x])) =
        tabulate2 (nrows x) (nrows y) (\<lambda>i j.
                sum_list (map (\<lambda>k. (at2 x i k - at2 y j 0) * (at2 x i k - at2 y j 0))
                  [0..<ncols x]))"
        by (intro tabulate2_cong sum_list_upt_cong) simp
      then show ?thesis
        using True False by (simp add: euclidean_broadcast_closed [OF len])
    next
      case no: False
      show ?thesis
        using False no assms(3)
        by (simp add: euclidean_broadcast_closed [OF len] broadcast_dim_def)
    qed
  qed
  show ?thesis
    using trick bc by (rule conjI)
qed

theorem shape_mismatch_witness:
  "wf2 \<lparr>nrows = 1, ncols = 1, rows = [[1::real]]\<rparr> \<and> wf2 \<lparr>nrows = 1, ncols = 2, rows = [[1::real, 2]]\<rparr>
   \<and> ncols \<lparr>nrows = 1, ncols = 1, rows = [[1::real]]\<rparr> \<noteq> ncols \<lparr>nrows = 1, ncols = 2, rows = [[1::real, 2]]\<rparr>
   \<and> euclidean_trick \<lparr>nrows = 1, ncols = 1, rows = [[1::real]]\<rparr>
         \<lparr>nrows = 1, ncols = 2, rows = [[1::real, 2]]\<rparr> = Inl ValueError
   \<and> euclidean_broadcast \<lparr>nrows = 1, ncols = 1, rows = [[1::real]]\<rparr>
         \<lparr>nrows = 1, ncols = 2, rows = [[1::real, 2]]\<rparr> = Inr \<lparr>nrows = 1, ncols = 1, rows = [[1::real]]\<rparr>
   \<and> wf2 \<lparr>nrows = 1, ncols = 2, rows = [[1::real, 2]]\<rparr>
   \<and> wf2 \<lparr>nrows = 1, ncols = 3, rows = [[4::real, 5, 6]]\<rparr>
   \<and> ncols \<lparr>nrows = 1, ncols = 2, rows = [[1::real, 2]]\<rparr>
       \<noteq> ncols \<lparr>nrows = 1, ncols = 3, rows = [[4::real, 5, 6]]\<rparr>
   \<and> euclidean_trick \<lparr>nrows = 1, ncols = 2, rows = [[1::real, 2]]\<rparr>
         \<lparr>nrows = 1, ncols = 3, rows = [[4::real, 5, 6]]\<rparr> = Inl ValueError
   \<and> euclidean_broadcast \<lparr>nrows = 1, ncols = 2, rows = [[1::real, 2]]\<rparr>
         \<lparr>nrows = 1, ncols = 3, rows = [[4::real, 5, 6]]\<rparr> = Inl ValueError"
proof -
  have a: "wf2 \<lparr>nrows = 1, ncols = 1, rows = [[1::real]]\<rparr>"
    and b: "wf2 \<lparr>nrows = 1, ncols = 2, rows = [[1::real, 2]]\<rparr>"
    and c: "wf2 \<lparr>nrows = 1, ncols = 3, rows = [[4::real, 5, 6]]\<rparr>"
    by (simp_all add: wf2_def)
  have ab: "ncols \<lparr>nrows = 1, ncols = 1, rows = [[1::real]]\<rparr>
            \<noteq> ncols \<lparr>nrows = 1, ncols = 2, rows = [[1::real, 2]]\<rparr>"
    and bc: "ncols \<lparr>nrows = 1, ncols = 2, rows = [[1::real, 2]]\<rparr>
       \<noteq> ncols \<lparr>nrows = 1, ncols = 3, rows = [[4::real, 5, 6]]\<rparr>"
    by simp_all
  show ?thesis
    using shape_mismatch [OF a b ab] shape_mismatch [OF b c bc] a b c
    by (simp add: tabulate2_def at2_def upt_rec)
qed







text \<open>
  Claim C7. The two scenarios of the specification: the batch \<open>[[0,0],[3,4]]\<close> against
  itself gives \<open>[[0,25],[25,0]]\<close>, and \<open>[[1,2,3]]\<close> against \<open>[[4,5,6]]\<close> gives
  \<open>[[27]]\<close>, with both strategies.
\<close>
theorem spec_fixtures:
  "euclidean_trick fixture_square fixture_square
     = Inr \<lparr>nrows = 2, ncols = 2, rows = [[0, 25], [25, 0]]\<rparr>
   \<and> euclidean_broadcast fixture_square fixture_square
     = Inr \<lparr>nrows = 2, ncols = 2, rows = [[0, 25], [25, 0]]\<rparr>
   \<and> euclidean_trick fixture_left fixture_right = Inr \<lparr>nrows = 1, ncols = 1, rows = [[27]]\<rparr>
   \<and> euclidean_broadcast fixture_left fixture_right
     = Inr \<lparr>nrows = 1, ncols = 1, rows = [[27]]\<rparr>"
  by code_simp

text \<open>
  Claim C8. A call retains no state and changes no array: the matrix a call returns (or the
  exception it raises) is a function of the contents of the two input batches alone, so
  two calls on equal batches, in whatever stores, return equal matrices; and the store
  after a call holds every array that existed before it, in particular \<open>x\<close> and \<open>y\<close>,
  unchanged. This holds for both strategies, and when \<open>x\<close> and \<open>y\<close> are the same object.
\<close>
theorem calls_retain_no_state:
  assumes "x < length (matrices s)" "y < length (matrices s)"
    and "x' < length (matrices s')" "y' < length (matrices s')"
    and "matrices s' ! x' = matrices s ! x" "matrices s' ! y' = matrices s ! y"
  shows "returned (euclidean_trick_st x' y' s') = returned (euclidean_trick_st x y s)
       \<and> returned (euclidean_broadcast_st x' y' s') = returned (euclidean_broadcast_st x y s)
       \<and> returned (euclidean_trick_st x y s) = euclidean_trick (matrices s ! x) (matrices s ! y)
       \<and> returned (euclidean_broadcast_st x y s)
           = euclidean_broadcast (matrices s ! x) (matrices s ! y)
       \<and> extends s (snd (euclidean_trick_st x y s))
       \<and> extends s (snd (euclidean_broadcast_st x y s))
       \<and> matrices (snd (euclidean_trick_st x y s)) ! x = matrices s ! x
       \<and> matrices (snd (euclidean_trick_st x y s)) ! y = matrices s ! y
       \<and> matrices (snd (euclidean_broadcast_st x y s)) ! x = matrices s ! x
       \<and> matrices (snd (euclidean_broadcast_st x y s)) ! y = matrices s ! y"
proof -
  note t = trick_run [OF assms(1,2)] and t' = trick_run [OF assms(3,4)]
  note b = broadcast_run [OF assms(1,2)] and b' = broadcast_run [OF assms(3,4)]
  have keep: "matrices u ! r = matrices s ! r" if "extends s u" "r < length (matrices s)" for u r
    using that by (auto simp: extends_def prefix_def nth_append)
  show ?thesis
    using t t' b b' assms(5,6) keep [OF _ assms(1)] keep [OF _ assms(2)] by simp
qed

theorem calls_retain_no_state_witness:
  "0 < length (matrices store0) \<and> 1 < length (matrices store0)
   \<and> 0 < length (matrices (snd (euclidean_trick_st 0 1 store0)))
   \<and> 1 < length (matrices (snd (euclidean_trick_st 0 1 store0)))
   \<and> matrices (snd (euclidean_trick_st 0 1 store0)) ! 0 = matrices store0 ! 0
   \<and> matrices (snd (euclidean_trick_st 0 1 store0)) ! 1 = matrices store0 ! 1
   \<and> returned (euclidean_trick_st 0 1 (snd (euclidean_trick_st 0 1 store0)))
       = returned (euclidean_trick_st 0 1 store0)
   \<and> returned (euclidean_broadcast_st 0 1 (snd (euclidean_trick_st 0 1 store0)))
       = returned (euclidean_broadcast_st 0 1 store0)
   \<and> returned (euclidean_trick_st 0 1 store0) = Inr \<lparr>nrows = 1, ncols = 1, rows = [[27]]\<rparr>"
proof -
  have a: "0 < length (matrices store0)" and b: "1 < length (matrices store0)"
    by (simp_all add: store0_def)
  have c: "0 < length (matrices (snd (euclidean_trick_st 0 1 store0)))"
    and d: "1 < length (matrices (snd (euclidean_trick_st 0 1 store0)))"
    and e: "matrices (snd (euclidean_trick_st 0 1 store0)) ! 0 = matrices store0 ! 0"
    and f: "matrices (snd (euclidean_trick_st 0 1 store0)) ! 1 = matrices store0 ! 1"
    by code_simp+
  have g: "euclidean_trick (matrices store0 ! 0) (matrices store0 ! 1)
           = Inr \<lparr>nrows = 1, ncols = 1, rows = [[27]]\<rparr>"
    by code_simp
  show ?thesis
    using calls_retain_no_state [OF a b c d e f] a b c d e f g by simp
qed

text \<open>
  Claim C9. \<open>euclidean\<close> fails with AssertionError whenever its arguments belong to
  different array modules, whatever their shapes and entries are (nothing is computed
  before the assertion); on two NumPy arrays it returns what \<open>euclidean_np\<close> returns, on
  two CuPy arrays what \<open>euclidean_cp\<close> returns.
\<close>
theorem euclidean_dispatch:
  "(get_array_module x \<noteq> get_array_module y \<longrightarrow> euclidean x y = Inl AssertionError)
   \<and> euclidean (NumPyArray a) (NumPyArray b) = map_sum id NumPyArray (euclidean_np a b)
   \<and> euclidean (CuPyArray a) (CuPyArray b) = map_sum id CuPyArray (euclidean_cp a b)"
  by (simp add: euclidean_def euclidean_np_def euclidean_cp_def Let_def split: sum.splits)

theorem euclidean_dispatch_witness:
  "get_array_module (NumPyArray fixture_left) \<noteq> get_array_module (CuPyArray fixture_square)
   \<and> euclidean (NumPyArray fixture_left) (CuPyArray fixture_square) = Inl AssertionError
   \<and> euclidean (NumPyArray fixture_left) (NumPyArray fixture_right)
       = map_sum id NumPyArray (euclidean_np fixture_left fixture_right)
   \<and> euclidean (CuPyArray fixture_left) (CuPyArray fixture_right)
       = map_sum id CuPyArray (euclidean_cp fixture_left fixture_right)"
  using euclidean_dispatch [of "NumPyArray fixture_left" "CuPyArray fixture_square"
      fixture_left fixture_right]
  by simp



end
